theory Spec2Isabelle
  imports Main
begin

section \<open>Python values used by the program\<close>

text \<open>
  A Python \<open>str\<close> is a sequence of Unicode code points, and \<open>len\<close> and slicing count code
  points. A string is therefore a list of natural numbers; \<open>lit\<close> embeds the ASCII
  literals of the source.
\<close>

type_synonym str = "nat list"

definition lit :: "string \<Rightarrow> str" where
  "lit s = map of_char s"

text \<open>
  \<open>str.strip()\<close> without an argument removes leading and trailing white space, the code
  points for which \<open>str.isspace\<close> holds: U+0009..U+000D, U+001C..U+0020, U+0085, U+00A0,
  U+1680, U+2000..U+200A, U+2028, U+2029, U+202F, U+205F and U+3000.
\<close>

definition isspace :: "nat \<Rightarrow> bool" where
  "isspace c \<longleftrightarrow>
     (9 \<le> c \<and> c \<le> 13) \<or> (28 \<le> c \<and> c \<le> 32) \<or> c = 133 \<or> c = 160 \<or> c = 5760 \<or>
     (8192 \<le> c \<and> c \<le> 8202) \<or> c = 8232 \<or> c = 8233 \<or> c = 8239 \<or> c = 8287 \<or> c = 12288"

definition strip :: "str \<Rightarrow> str" where
  "strip s = rev (dropWhile isspace (rev (dropWhile isspace s)))"

text \<open>
  Exceptions are values. \<open>ValueError\<close> and \<open>KeyError\<close> are the two the program raises
  itself (the latter through a failed dictionary subscript); \<open>LibraryError\<close> stands for
  any exception raised inside \<open>qrcode\<close>, \<open>PIL\<close> or \<open>ImageTk\<close>, carrying the name of its
  class and its message, which is what \<open>str\<close> shows of it.
\<close>

datatype exn = ValueError str | KeyError str | LibraryError str str

section \<open>The external libraries\<close>

text \<open>
  The four error-correction constants of \<open>qrcode.constants\<close>. The program never looks
  inside them: it stores one and hands it to the encoder.
\<close>

datatype error_correct = ERROR_CORRECT_L | ERROR_CORRECT_M | ERROR_CORRECT_Q | ERROR_CORRECT_H

text \<open>
  Everything \<open>generate\<close> hands to the encoder (lines 57 to 68 of the source): the arguments
  of the \<open>QRCode\<close> constructor, of \<open>add_data\<close>, of \<open>make\<close> and of \<open>make_image\<close>.
\<close>

record qr_request =
  rq_version :: "nat option"
  rq_error_correction :: error_correct
  rq_box_size :: int
  rq_border :: int
  rq_data :: str
  rq_fit :: bool
  rq_fill_color :: str
  rq_back_color :: str

text \<open>
  The library calls are parameters of the model, each one able to raise:
  \<^item> \<open>qr_make_image\<close>: build the symbol and render it (\<open>QRCode(...)\<close>, \<open>add_data\<close>,
    \<open>make\<close>, \<open>make_image\<close>);
  \<^item> \<open>image_save\<close>: \<open>image.save(filepath)\<close>, which acts on the file system \<open>'fs\<close> and
    may leave an exception;
  \<^item> \<open>image_resize\<close>: \<open>image.get_image().resize(size, Image.Resampling.NEAREST)\<close>, which
    returns a new image;
  \<^item> \<open>photo_image\<close>: \<open>ImageTk.PhotoImage(image)\<close>;
  \<^item> \<open>py_repr\<close>: \<open>repr\<close> of a string, which is what \<open>str\<close> of a \<open>KeyError\<close> shows.
  Images are values: a library call returns a new image and leaves its argument as it is.
\<close>

record ('img, 'photo, 'fs) env =
  qr_make_image :: "qr_request \<Rightarrow> exn + 'img"
  image_save :: "'img \<Rightarrow> str \<Rightarrow> 'fs \<Rightarrow> exn option \<times> 'fs"
  image_resize :: "'img \<Rightarrow> nat \<times> nat \<Rightarrow> exn + 'img"
  photo_image :: "'img \<Rightarrow> exn + 'photo"
  py_repr :: "str \<Rightarrow> str"

fun exn_str :: "('img, 'photo, 'fs) env \<Rightarrow> exn \<Rightarrow> str" where
  "exn_str E (ValueError m) = m"
| "exn_str E (KeyError k) = py_repr E k"
| "exn_str E (LibraryError n m) = m"

section \<open>QRCodeGenerator\<close>

definition ERROR_LEVELS :: "(str \<times> error_correct) list" where
  "ERROR_LEVELS =
     [(lit ''Low (7%)'', ERROR_CORRECT_L),
      (lit ''Medium (15%)'', ERROR_CORRECT_M),
      (lit ''Quartile (25%)'', ERROR_CORRECT_Q),
      (lit ''High (30%)'', ERROR_CORRECT_H)]"

record 'img generator =
  box_size :: int
  border :: int
  error_correction :: error_correct
  last_generated_image :: "'img option"

text \<open>\<open>__init__\<close>: \<open>ERROR_LEVELS.get(error_correction, ERROR_CORRECT_M)\<close>.\<close>

definition generator_init :: "int \<Rightarrow> int \<Rightarrow> str \<Rightarrow> 'img generator" where
  "generator_init bs bd ec =
     \<lparr>box_size = bs, border = bd,
      error_correction = (case map_of ERROR_LEVELS ec of Some l \<Rightarrow> l | None \<Rightarrow> ERROR_CORRECT_M),
      last_generated_image = None\<rparr>"

text \<open>
  \<open>generate\<close> returns what the method returns or raises, and the object afterwards. The
  assignment to \<open>last_generated_image\<close> happens only once \<open>make_image\<close> has returned.
\<close>

definition generate ::
  "('img, 'photo, 'fs) env \<Rightarrow> str \<Rightarrow> str \<Rightarrow> str \<Rightarrow> ('img, 'm) generator_scheme
     \<Rightarrow> (exn + 'img) \<times> ('img, 'm) generator_scheme" where
  "generate E data fill_color back_color self =
     (if strip data = [] then
        (Inl (ValueError (lit ''Please enter text or URL to generate QR code'')), self)
      else
        (case qr_make_image E
                \<lparr>rq_version = None, rq_error_correction = error_correction self,
                 rq_box_size = box_size self, rq_border = border self,
                 rq_data = data, rq_fit = True,
                 rq_fill_color = fill_color, rq_back_color = back_color\<rparr> of
           Inl e \<Rightarrow> (Inl e, self)
         | Inr img \<Rightarrow> (Inr img, self\<lparr>last_generated_image := Some img\<rparr>)))"

text \<open>\<open>save\<close> returns the outcome, the object and the file system afterwards.\<close>

definition save ::
  "('img, 'photo, 'fs) env \<Rightarrow> str \<Rightarrow> ('img, 'm) generator_scheme \<Rightarrow> 'fs
     \<Rightarrow> (exn + unit) \<times> ('img, 'm) generator_scheme \<times> 'fs" where
  "save E filepath self fs =
     (case last_generated_image self of
        None \<Rightarrow> (Inl (ValueError (lit ''No QR code generated yet'')), self, fs)
      | Some img \<Rightarrow>
          (case image_save E img filepath fs of
             (None, fs') \<Rightarrow> (Inr (), self, fs')
           | (Some e, fs') \<Rightarrow> (Inl e, self, fs')))"

section \<open>QRCodeApp\<close>

text \<open>
  What the user sees of the calls into \<open>messagebox\<close> and \<open>filedialog\<close>, in the order they
  happen: each dialog with its title and message, and the opening of the file dialog.
\<close>

datatype ui_event =
  Showwarning str str
| Showerror str str
| Showinfo str str
| Asksaveasfilename

text \<open>
  \<open>QRCodeApp\<close> inherits from \<open>QRCodeGenerator\<close>: the record extends the generator's with
  the state of the widgets. \<open>text_input\<close> is what the user typed, \<open>error_var\<close> and
  \<open>size_var\<close> are the Tk variables of the dropdown and of the slider, \<open>qr_label_text\<close> and
  \<open>qr_label_image\<close> the configuration of the preview label.
\<close>

record ('img, 'photo) app = "'img generator" +
  text_input :: str
  error_var :: str
  size_var :: int
  qr_label_text :: str
  qr_label_image :: "'photo option"
  photo :: "'photo option"
  status_var :: str
  events :: "ui_event list"

text \<open>
  \<open>QRCodeApp.__init__\<close>: the generator's constructor with its default arguments, then
  the widgets of \<open>_create_widgets\<close>.
\<close>

definition app_init :: "('img, 'photo) app" where
  "app_init =
     generator.extend (generator_init 10 4 (lit ''Medium (15%)''))
       (app.fields [] (lit ''Medium (15%)'') 10 (lit ''QR code will appear here'') None None
          (lit ''Ready'') [])"

text \<open>
  \<open>self.text_input.get("1.0", tk.END)\<close>: the text of the widget, with the newline Tk keeps
  after the last line.
\<close>

definition text_input_get :: "('img, 'photo, 'm) app_scheme \<Rightarrow> str" where
  "text_input_get self = text_input self @ [10]"

text \<open>The \<open>except Exception as e\<close> branch of \<open>_on_generate\<close>.\<close>

definition on_generate_except ::
  "('img, 'photo, 'fs) env \<Rightarrow> exn \<Rightarrow> ('img, 'photo, 'm) app_scheme \<Rightarrow> ('img, 'photo, 'm) app_scheme" where
  "on_generate_except E e self =
     self\<lparr>events := events self @ [Showerror (lit ''Error'') (exn_str E e)],
          status_var := lit ''Error generating QR code''\<rparr>"

text \<open>
  \<open>_on_generate\<close>. The assignments to \<open>box_size\<close> and \<open>error_correction\<close> are inside the
  \<open>try\<close>, in this order, so a label missing from \<open>ERROR_LEVELS\<close> raises \<open>KeyError\<close> after
  \<open>box_size\<close> has been set.
\<close>

definition on_generate ::
  "('img, 'photo, 'fs) env \<Rightarrow> ('img, 'photo, 'm) app_scheme \<Rightarrow> ('img, 'photo, 'm) app_scheme" where
  "on_generate E self =
     (let data = strip (text_input_get self) in
      if data = [] then
        self\<lparr>events := events self @ [Showwarning (lit ''Warning'') (lit ''Please enter text or URL'')]\<rparr>
      else
        (let self1 = self\<lparr>box_size := size_var self\<rparr> in
         case map_of ERROR_LEVELS (error_var self1) of
           None \<Rightarrow> on_generate_except E (KeyError (error_var self1)) self1
         | Some level \<Rightarrow>
             (let self2 = self1\<lparr>error_correction := level\<rparr> in
              case generate E data (lit ''black'') (lit ''white'') self2 of
                (Inl e, self3) \<Rightarrow> on_generate_except E e self3
              | (Inr qr_image, self3) \<Rightarrow>
                  (case image_resize E qr_image (250, 250) of
                     Inl e \<Rightarrow> on_generate_except E e self3
                   | Inr qr_image_resized \<Rightarrow>
                       (case photo_image E qr_image_resized of
                          Inl e \<Rightarrow> on_generate_except E e self3
                        | Inr ph \<Rightarrow>
                            self3\<lparr>photo := Some ph,
                                  qr_label_image := Some ph, qr_label_text := [],
                                  status_var :=
                                    lit ''Generated QR code for: '' @ take 30 data @ lit ''...''\<rparr>)))))"

text \<open>
  \<open>_on_save\<close>. \<open>answer\<close> is what \<open>filedialog.asksaveasfilename\<close> returns once the user has
  closed the dialog, the empty string when it was cancelled.
\<close>

definition on_save ::
  "('img, 'photo, 'fs) env \<Rightarrow> str \<Rightarrow> ('img, 'photo, 'm) app_scheme \<Rightarrow> 'fs
     \<Rightarrow> ('img, 'photo, 'm) app_scheme \<times> 'fs" where
  "on_save E answer self fs =
     (if last_generated_image self = None then
        (self\<lparr>events := events self @
            [Showwarning (lit ''Warning'') (lit ''Generate a QR code first before saving'')]\<rparr>, fs)
      else
        (let self1 = self\<lparr>events := events self @ [Asksaveasfilename]\<rparr> in
         if answer = [] then (self1, fs)
         else
           (case save E answer self1 fs of
              (Inr u, self2, fs') \<Rightarrow>
                (self2\<lparr>status_var := lit ''Saved to: '' @ answer,
                       events := events self2 @
                         [Showinfo (lit ''Success'') (lit ''QR code saved to:'' @ [10] @ answer)]\<rparr>, fs')
            | (Inl e, self2, fs') \<Rightarrow>
                (self2\<lparr>events := events self2 @
                    [Showerror (lit ''Error'') (lit ''Could not save file: '' @ exn_str E e)]\<rparr>, fs'))))"

section \<open>Sequences of calls\<close>

text \<open>
  A client of \<open>QRCodeGenerator\<close> calls \<open>generate\<close> and \<open>save\<close> in any order. \<open>run\<close> performs
  a list of calls; beside the object and the file system it carries the image returned by
  the most recent call of \<open>generate\<close> that returned one.
\<close>

datatype call = Generate str str str | Save str

fun step ::
  "('img, 'photo, 'fs) env \<Rightarrow> call \<Rightarrow> ('img, 'm) generator_scheme \<times> 'fs \<times> 'img option
     \<Rightarrow> ('img, 'm) generator_scheme \<times> 'fs \<times> 'img option" where
  "step E (Generate d f b) (self, fs, recent) =
     (case generate E d f b self of
        (Inr img, self') \<Rightarrow> (self', fs, Some img)
      | (Inl e, self') \<Rightarrow> (self', fs, recent))"
| "step E (Save p) (self, fs, recent) =
     (case save E p self fs of (r, self', fs') \<Rightarrow> (self', fs', recent))"

fun run ::
  "('img, 'photo, 'fs) env \<Rightarrow> call list \<Rightarrow> ('img, 'm) generator_scheme \<times> 'fs \<times> 'img option
     \<Rightarrow> ('img, 'm) generator_scheme \<times> 'fs \<times> 'img option" where
  "run E [] s = s"
| "run E (c # cs) s = run E cs (step E c s)"

section \<open>A stand-in for the libraries\<close>

text \<open>
  To evaluate the program on concrete inputs the library calls need values. In
  \<open>sample_env\<close> an image is the request it was rendered from together with the size it was
  resampled to, if any, and the file system is the list of files written, newest first.
  The stand-in keeps the failures of the real libraries that matter here.

  The encoder raises \<open>DataOverflowError\<close>, with an empty message, when the data does not
  fit the largest symbol (version 40) at the requested level. \<open>sample_fits\<close> has the
  capacities of version 40 in the three modes: digits only, the 45 alphanumeric
  characters only, and bytes of UTF-8 otherwise. The real encoder cuts the data into
  chunks of different modes where twenty or more digits or alphanumeric characters follow
  one another, so the bound is the real one for data of digits only and for text without
  such runs, to which every input evaluated below belongs.

  \<open>save\<close> writes PNG data whatever the extension of the name. The file system is an empty
  working directory without subdirectories, and names are taken as they are written: a
  plain name creates a file; the empty name and a name with a \<open>/\<close> raise
  \<open>FileNotFoundError\<close>, the names \<open>.\<close> and \<open>..\<close> raise \<open>IsADirectoryError\<close>, a name with a
  null character raises \<open>ValueError\<close>; a failed \<open>save\<close> writes nothing.

  \<open>sample_repr\<close> is \<open>repr\<close> on ASCII strings: double quotes when the string has an
  apostrophe and no double quote, apostrophes otherwise, with the escapes of the
  backslash, the quote in use, tab, newline, carriage return and the other control
  characters.
\<close>

type_synonym picture = "qr_request \<times> (nat \<times> nat) option"

definition is_digit :: "nat \<Rightarrow> bool" where
  "is_digit c \<longleftrightarrow> 48 \<le> c \<and> c \<le> 57"

definition is_alphanum :: "nat \<Rightarrow> bool" where
  "is_alphanum c \<longleftrightarrow>
     is_digit c \<or> (65 \<le> c \<and> c \<le> 90) \<or> c = 32 \<or> c = 36 \<or> c = 37 \<or> c = 42 \<or> c = 43 \<or>
     c = 45 \<or> c = 46 \<or> c = 47 \<or> c = 58"

definition utf8_len :: "str \<Rightarrow> nat" where
  "utf8_len s =
     sum_list (map (\<lambda>c. if c < 128 then 1 else if c < 2048 then 2 else if c < 65536 then 3 else 4) s)"

definition sample_fits :: "error_correct \<Rightarrow> str \<Rightarrow> bool" where
  "sample_fits level d =
     (if list_all is_digit d then
        length d \<le> (case level of ERROR_CORRECT_L \<Rightarrow> 7089 | ERROR_CORRECT_M \<Rightarrow> 5596
                      | ERROR_CORRECT_Q \<Rightarrow> 3993 | ERROR_CORRECT_H \<Rightarrow> 3057)
      else if list_all is_alphanum d then
        length d \<le> (case level of ERROR_CORRECT_L \<Rightarrow> 4296 | ERROR_CORRECT_M \<Rightarrow> 3391
                      | ERROR_CORRECT_Q \<Rightarrow> 2420 | ERROR_CORRECT_H \<Rightarrow> 1852)
      else
        utf8_len d \<le> (case level of ERROR_CORRECT_L \<Rightarrow> 2953 | ERROR_CORRECT_M \<Rightarrow> 2331
                        | ERROR_CORRECT_Q \<Rightarrow> 1663 | ERROR_CORRECT_H \<Rightarrow> 1273))"

definition hex_digit :: "nat \<Rightarrow> nat" where
  "hex_digit n = (if n < 10 then 48 + n else 87 + n)"

definition sample_escape :: "nat \<Rightarrow> nat \<Rightarrow> str" where
  "sample_escape q c =
     (if c = 92 then [92, 92]
      else if c = q then [92, q]
      else if c = 9 then [92, 116]
      else if c = 10 then [92, 110]
      else if c = 13 then [92, 114]
      else if c < 32 \<or> c = 127 then [92, 120, hex_digit (c div 16), hex_digit (c mod 16)]
      else [c])"

definition sample_repr :: "str \<Rightarrow> str" where
  "sample_repr k =
     (let q = (if 39 \<in> set k \<and> 34 \<notin> set k then 34 else 39)
      in [q] @ concat (map (sample_escape q) k) @ [q])"

definition sample_save :: "picture \<Rightarrow> str \<Rightarrow> (str \<times> picture) list \<Rightarrow> exn option \<times> (str \<times> picture) list" where
  "sample_save img p fs =
     (if 0 \<in> set p then (Some (ValueError (lit ''embedded null byte'')), fs)
      else if p = [] \<or> 47 \<in> set p then
        (Some (LibraryError (lit ''FileNotFoundError'')
                 (lit ''[Errno 2] No such file or directory: '' @ sample_repr p)), fs)
      else if p = lit ''.'' \<or> p = lit ''..'' then
        (Some (LibraryError (lit ''IsADirectoryError'')
                 (lit ''[Errno 21] Is a directory: '' @ sample_repr p)), fs)
      else (None, (p, img) # fs))"

definition sample_env :: "(picture, picture, (str \<times> picture) list) env" where
  "sample_env =
     \<lparr>qr_make_image = (\<lambda>rq. if sample_fits (rq_error_correction rq) (rq_data rq)
                              then Inr (rq, None)
                              else Inl (LibraryError (lit ''DataOverflowError'') [])),
      image_save = sample_save,
      image_resize = (\<lambda>img size. Inr (fst img, Some size)),
      photo_image = (\<lambda>img. Inr img),
      py_repr = sample_repr\<rparr>"

text \<open>
  An application whose user has typed a URL of 42 characters between blanks, chosen the
  level Quartile and moved the slider to 12; and the image the stand-in encoder renders
  for it.
\<close>

definition sample_app :: "(picture, picture) app" where
  "sample_app =
     app_init\<lparr>text_input := lit ''  https://example.org/a/rather/long/path?q=1 '',
              error_var := lit ''Quartile (25%)'', size_var := 12\<rparr>"

definition sample_picture :: picture where
  "sample_picture =
     (\<lparr>rq_version = None, rq_error_correction = ERROR_CORRECT_Q, rq_box_size = 12,
       rq_border = 4, rq_data = lit ''https://example.org/a/rather/long/path?q=1'',
       rq_fit = True, rq_fill_color = lit ''black'', rq_back_color = lit ''white''\<rparr>, None)"

text \<open>The image the stand-in encoder renders for \<open>hi\<close> at level High.\<close>

definition hi_picture :: picture where
  "hi_picture =
     (\<lparr>rq_version = None, rq_error_correction = ERROR_CORRECT_H, rq_box_size = 10,
       rq_border = 4, rq_data = lit ''hi'', rq_fit = True,
       rq_fill_color = lit ''black'', rq_back_color = lit ''white''\<rparr>, None)"

text \<open>The image the stand-in encoder renders for \<open>yo\<close> at level High.\<close>

definition yo_picture :: picture where
  "yo_picture =
     (\<lparr>rq_version = None, rq_error_correction = ERROR_CORRECT_H, rq_box_size = 10,
       rq_border = 4, rq_data = lit ''yo'', rq_fit = True,
       rq_fill_color = lit ''black'', rq_back_color = lit ''white''\<rparr>, None)"

section \<open>Facts about strings\<close>

lemma dropWhile_id: "xs \<noteq> [] \<Longrightarrow> \<not> P (hd xs) \<Longrightarrow> dropWhile P xs = xs"
  by (cases xs) simp_all

lemma strip_Nil_iff: "strip s = [] \<longleftrightarrow> (\<forall>c\<in>set s. isspace c)"
proof
  assume "strip s = []"
  then have e: "\<forall>c\<in>set (dropWhile isspace s). isspace c"
    by (simp add: strip_def)
  show "\<forall>c\<in>set s. isspace c"
  proof (cases "dropWhile isspace s")
    case Nil
    then show ?thesis by (simp only: dropWhile_eq_Nil_conv)
  next
    case (Cons x xs)
    then have "\<not> isspace x" using hd_dropWhile [of isspace s] by simp
    moreover have "isspace x" using e Cons by simp
    ultimately show ?thesis by simp
  qed
next
  assume "\<forall>c\<in>set s. isspace c"
  then have "dropWhile isspace s = []" by simp
  then show "strip s = []" by (simp add: strip_def del: dropWhile_eq_Nil_conv)
qed

lemma strip_ends:
  assumes "strip s \<noteq> []"
  shows "\<not> isspace (hd (strip s))" and "\<not> isspace (last (strip s))"
proof -
  let ?t = "dropWhile isspace s"
  let ?u = "dropWhile isspace (rev ?t)"
  have su: "strip s = rev ?u" by (simp only: strip_def)
  from assms have u: "?u \<noteq> []" unfolding su by (simp del: dropWhile_eq_Nil_conv)
  then have t: "?t \<noteq> []" by (cases ?t) simp_all
  have ht: "\<not> isspace (hd ?t)" using t by (rule hd_dropWhile)
  have hu: "\<not> isspace (hd ?u)" using u by (rule hd_dropWhile)
  have "last (rev ?u) = hd ?u" by (simp add: last_rev)
  then show "\<not> isspace (last (strip s))" using hu unfolding su by simp
  have "last (rev ?t) = hd ?t" using t by (simp add: last_rev del: dropWhile_eq_Nil_conv)
  moreover have "last ?u = last (rev ?t)"
    using u by (metis last_appendR takeWhile_dropWhile_id)
  moreover have "hd (rev ?u) = last ?u" by (simp add: hd_rev)
  ultimately have "hd (rev ?u) = hd ?t" by simp
  then show "\<not> isspace (hd (strip s))" using ht unfolding su by simp
qed

lemma strip_idem: "strip (strip s) = strip s"
proof (cases "strip s = []")
  case True
  have "strip [] = []" by (simp add: strip_def)
  then show ?thesis by (simp only: True)
next
  case False
  have a: "dropWhile isspace (strip s) = strip s"
    using False strip_ends(1) [OF False] by (rule dropWhile_id)
  have r: "rev (strip s) \<noteq> []" using False by simp
  have "hd (rev (strip s)) = last (strip s)" by (simp add: hd_rev)
  then have "\<not> isspace (hd (rev (strip s)))"
    using strip_ends(2) [OF False] by simp
  with r have b: "dropWhile isspace (rev (strip s)) = rev (strip s)"
    by (rule dropWhile_id)
  show ?thesis unfolding strip_def [of "strip s"] a b by simp
qed

lemma lit_simps: "lit [] = []" "lit (c # cs) = of_char c # lit cs"
  by (simp_all add: lit_def)

lemma strip_Nil [simp]: "strip [] = []"
  by (simp add: strip_def)

section \<open>Facts about the generator\<close>

text \<open>
  A call of \<open>generate\<close> either returns an image and stores it, or raises and leaves the
  object as it was; \<open>save\<close> never changes the object.
\<close>

lemma generate_cases:
  assumes "generate E d f b self = (r, self')"
  shows "(\<exists>img. r = Inr img \<and> self' = self\<lparr>last_generated_image := Some img\<rparr>) \<or>
         (\<exists>e. r = Inl e \<and> self' = self)"
proof (cases "strip d = []")
  case True
  then have "generate E d f b self =
      (Inl (ValueError (lit ''Please enter text or URL to generate QR code'')), self)"
    by (simp add: generate_def)
  with assms have "r = Inl (ValueError (lit ''Please enter text or URL to generate QR code''))"
    and "self' = self" by simp_all
  then show ?thesis by simp
next
  case False
  let ?rq = "\<lparr>rq_version = None, rq_error_correction = error_correction self,
                 rq_box_size = box_size self, rq_border = border self,
                 rq_data = d, rq_fit = True,
                 rq_fill_color = f, rq_back_color = b\<rparr>"
  show ?thesis
  proof (cases "qr_make_image E ?rq")
    case (Inl e)
    with False have "generate E d f b self = (Inl e, self)" by (simp add: generate_def)
    with assms have "r = Inl e" and "self' = self" by simp_all
    then show ?thesis by simp
  next
    case (Inr img)
    with False have "generate E d f b self = (Inr img, self\<lparr>last_generated_image := Some img\<rparr>)"
      by (simp add: generate_def)
    with assms have "r = Inr img" and "self' = self\<lparr>last_generated_image := Some img\<rparr>"
      by simp_all
    then show ?thesis by simp
  qed
qed

lemma generate_produced:
  assumes "generate E d f b self = (Inr img, self')"
  shows "strip d \<noteq> [] \<and>
         qr_make_image E
           \<lparr>rq_version = None, rq_error_correction = error_correction self,
            rq_box_size = box_size self, rq_border = border self,
            rq_data = d, rq_fit = True, rq_fill_color = f, rq_back_color = b\<rparr> = Inr img"
proof (cases "strip d = []")
  case True
  with assms show ?thesis by (simp add: generate_def)
next
  case False
  let ?rq = "\<lparr>rq_version = None, rq_error_correction = error_correction self,
                 rq_box_size = box_size self, rq_border = border self,
                 rq_data = d, rq_fit = True,
                 rq_fill_color = f, rq_back_color = b\<rparr>"
  show ?thesis
  proof (cases "qr_make_image E ?rq")
    case (Inl e)
    with False have "generate E d f b self = (Inl e, self)" by (simp add: generate_def)
    with assms show ?thesis by simp
  next
    case (Inr img')
    with False have "generate E d f b self = (Inr img', self\<lparr>last_generated_image := Some img'\<rparr>)"
      by (simp add: generate_def)
    with assms have "img' = img" by simp
    with False Inr show ?thesis by simp
  qed
qed

lemma save_object: "fst (snd (save E p self fs)) = self"
  by (simp add: save_def split: option.splits prod.splits)

lemma step_inv:
  assumes "last_generated_image self = recent"
    and "step E c (self, fs, recent) = (self', fs', recent')"
  shows "last_generated_image self' = recent'"
proof (cases c)
  case (Generate d f b)
  obtain r s where g: "generate E d f b self = (r, s)" by (cases "generate E d f b self")
  from generate_cases [OF g] assms Generate g show ?thesis by auto
next
  case (Save p)
  obtain r s t where g: "save E p self fs = (r, s, t)" by (cases "save E p self fs")
  from save_object [of E p self fs] g have "s = self" by simp
  with assms Save g show ?thesis by auto
qed

lemma run_inv:
  "last_generated_image self = recent \<Longrightarrow> run E cs (self, fs, recent) = (self', fs', recent')
     \<Longrightarrow> last_generated_image self' = recent'"
proof (induction cs arbitrary: self fs recent)
  case Nil
  then show ?case by simp
next
  case (Cons c cs)
  obtain s1 f1 r1 where st: "step E c (self, fs, recent) = (s1, f1, r1)"
    by (cases "step E c (self, fs, recent)")
  from step_inv [OF Cons.prems(1) st] have "last_generated_image s1 = r1" .
  moreover from Cons.prems(2) st have "run E cs (s1, f1, r1) = (self', fs', recent')" by simp
  ultimately show ?case by (rule Cons.IH)
qed

lemma step_keeps:
  assumes "last_generated_image self \<noteq> None"
  shows "last_generated_image (fst (step E c (self, fs, recent))) \<noteq> None"
proof (cases c)
  case (Generate d f b)
  obtain r s where g: "generate E d f b self = (r, s)" by (cases "generate E d f b self")
  from generate_cases [OF g] assms Generate g show ?thesis by auto
next
  case (Save p)
  obtain r s t where g: "save E p self fs = (r, s, t)" by (cases "save E p self fs")
  from save_object [of E p self fs] g have "s = self" by simp
  with assms Save g show ?thesis by auto
qed

lemma run_keeps:
  "last_generated_image (fst s) \<noteq> None \<Longrightarrow> last_generated_image (fst (run E cs s)) \<noteq> None"
proof (induction cs arbitrary: s)
  case Nil
  then show ?case by simp
next
  case (Cons c cs)
  obtain self fs recent where s: "s = (self, fs, recent)" by (cases s)
  with Cons.prems have "last_generated_image (fst (step E c s)) \<noteq> None"
    using step_keeps [of self E c fs recent] by simp
  then show ?case using Cons.IH by simp
qed

section \<open>Facts about the generate handler\<close>

text \<open>
  Once its call of \<open>generate\<close> has returned an image, \<open>_on_generate\<close> only builds the
  preview; and a run of \<open>_on_generate\<close> that shows no dialog went through every step.
\<close>

lemma generate_env:
  "generate (E\<lparr>image_resize := r, photo_image := p\<rparr>) d f b self = generate E d f b self"
  by (simp add: generate_def)

lemma on_generate_generated:
  assumes "strip (text_input_get self) \<noteq> []"
    and "map_of ERROR_LEVELS (error_var self) = Some level"
    and "generate E (strip (text_input_get self)) (lit ''black'') (lit ''white'')
           (self\<lparr>box_size := size_var self, error_correction := level\<rparr>) = (Inr img, self3)"
  shows "on_generate E self =
           (case image_resize E img (250, 250) of
              Inl e \<Rightarrow> on_generate_except E e self3
            | Inr qr_image_resized \<Rightarrow>
                (case photo_image E qr_image_resized of
                   Inl e \<Rightarrow> on_generate_except E e self3
                 | Inr ph \<Rightarrow>
                     self3\<lparr>photo := Some ph, qr_label_image := Some ph, qr_label_text := [],
                           status_var := lit ''Generated QR code for: '' @
                             take 30 (strip (text_input_get self)) @ lit ''...''\<rparr>))"
  using assms by (simp add: on_generate_def Let_def)

lemma on_generate_except_image:
  "last_generated_image (on_generate_except E e self) = last_generated_image self"
  by (simp add: on_generate_except_def)

lemma on_generate_stored:
  assumes "strip (text_input_get self) \<noteq> []"
    and "map_of ERROR_LEVELS (error_var self) = Some level"
    and "generate E (strip (text_input_get self)) (lit ''black'') (lit ''white'')
           (self\<lparr>box_size := size_var self, error_correction := level\<rparr>) = (Inr img, self3)"
  shows "last_generated_image (on_generate E self) = Some img"
proof -
  from generate_cases [OF assms(3)] have "last_generated_image self3 = Some img" by auto
  then show ?thesis
    unfolding on_generate_generated [OF assms]
    by (simp add: on_generate_except_image split: sum.splits)
qed

lemma on_generate_except_events:
  "events (on_generate_except E e self) \<noteq> events self"
  by (simp add: on_generate_except_def)

lemma generate_events:
  "events (snd (generate E d f b self)) = events self"
  by (simp add: generate_def split: sum.splits)

lemma on_generate_quiet:
  assumes "events (on_generate E self) = events self"
  shows "\<exists>level img self3 rs ph.
           strip (text_input_get self) \<noteq> [] \<and>
           map_of ERROR_LEVELS (error_var self) = Some level \<and>
           generate E (strip (text_input_get self)) (lit ''black'') (lit ''white'')
             (self\<lparr>box_size := size_var self, error_correction := level\<rparr>) = (Inr img, self3) \<and>
           image_resize E img (250, 250) = Inr rs \<and> photo_image E rs = Inr ph"
proof -
  have d: "strip (text_input_get self) \<noteq> []"
    using assms by (auto simp: on_generate_def Let_def)
  obtain level where l: "map_of ERROR_LEVELS (error_var self) = Some level"
    using assms d by (cases "map_of ERROR_LEVELS (error_var self)")
      (auto simp: on_generate_def Let_def on_generate_except_def)
  let ?s2 = "self\<lparr>box_size := size_var self, error_correction := level\<rparr>"
  obtain r self3 where g: "generate E (strip (text_input_get self)) (lit ''black'') (lit ''white'') ?s2 = (r, self3)"
    by (cases "generate E (strip (text_input_get self)) (lit ''black'') (lit ''white'') ?s2")
  have ev: "events self3 = events self"
    using generate_events [of E "strip (text_input_get self)" "lit ''black''" "lit ''white''" ?s2] g
    by simp
  obtain img where r: "r = Inr img"
    using assms d l g ev by (cases r) (auto simp: on_generate_def Let_def on_generate_except_def)
  note og = on_generate_generated [OF d l g [unfolded r]]
  obtain rs where rs: "image_resize E img (250, 250) = Inr rs"
    using assms ev unfolding og by (cases "image_resize E img (250, 250)") (auto simp: on_generate_except_def)
  obtain ph where ph: "photo_image E rs = Inr ph"
    using assms ev rs unfolding og by (cases "photo_image E rs") (auto simp: on_generate_except_def)
  from d l g r rs ph show ?thesis by blast
qed

lemma table:
  "map_of ERROR_LEVELS label =
     (if label = lit ''Low (7%)'' then Some ERROR_CORRECT_L
      else if label = lit ''Medium (15%)'' then Some ERROR_CORRECT_M
      else if label = lit ''Quartile (25%)'' then Some ERROR_CORRECT_Q
      else if label = lit ''High (30%)'' then Some ERROR_CORRECT_H
      else None)"
  by (simp add: ERROR_LEVELS_def)

lemma generate_error_correction:
  "error_correction (snd (generate E d f b self)) = error_correction self"
  by (simp add: generate_def split: sum.splits)

lemma on_generate_level:
  assumes "strip (text_input_get self) \<noteq> []"
    and "map_of ERROR_LEVELS (error_var self) = Some level"
  shows "error_correction (on_generate E self) = level"
proof -
  let ?s2 = "self\<lparr>box_size := size_var self, error_correction := level\<rparr>"
  let ?d = "strip (text_input_get self)"
  obtain r s3 where g: "generate E ?d (lit ''black'') (lit ''white'') ?s2 = (r, s3)"
    by (cases "generate E ?d (lit ''black'') (lit ''white'') ?s2")
  have e: "error_correction s3 = level"
    using generate_error_correction [of E ?d "lit ''black''" "lit ''white''" ?s2] g by simp
  show ?thesis
  proof (cases r)
    case (Inl x)
    with assms g e show ?thesis
      by (simp add: on_generate_def Let_def on_generate_except_def)
  next
    case (Inr img)
    with g have g': "generate E ?d (lit ''black'') (lit ''white'') ?s2 = (Inr img, s3)" by simp
    show ?thesis
      unfolding on_generate_generated [OF assms g']
      using e by (simp add: on_generate_except_def split: sum.splits)
  qed
qed

lemma on_generate_unknown:
  assumes "strip (text_input_get self) \<noteq> []"
    and "map_of ERROR_LEVELS (error_var self) = None"
  shows "on_generate E self =
           on_generate_except E (KeyError (error_var self)) (self\<lparr>box_size := size_var self\<rparr>)"
  using assms by (simp add: on_generate_def Let_def)

lemma on_generate_status:
  assumes "events (on_generate E self) = events self"
  shows "status_var (on_generate E self) =
           lit ''Generated QR code for: '' @ take 30 (strip (text_input_get self)) @ lit ''...''"
proof -
  from on_generate_quiet [OF assms] obtain level img self3 rs ph where
    d: "strip (text_input_get self) \<noteq> []" and
    l: "map_of ERROR_LEVELS (error_var self) = Some level" and
    g: "generate E (strip (text_input_get self)) (lit ''black'') (lit ''white'')
             (self\<lparr>box_size := size_var self, error_correction := level\<rparr>) = (Inr img, self3)" and
    rs: "image_resize E img (250, 250) = Inr rs" and ph: "photo_image E rs = Inr ph"
    by blast
  show ?thesis unfolding on_generate_generated [OF d l g] by (simp add: rs ph)
qed

lemma on_generate_keeps:
  assumes "last_generated_image self \<noteq> None"
  shows "last_generated_image (on_generate E self) \<noteq> None"
proof (cases "strip (text_input_get self) = []")
  case True
  with assms show ?thesis by (simp add: on_generate_def)
next
  case d: False
  show ?thesis
  proof (cases "map_of ERROR_LEVELS (error_var self)")
    case None
    from on_generate_unknown [OF d None, of E] assms show ?thesis
      by (simp add: on_generate_except_image)
  next
    case (Some level)
    let ?s2 = "self\<lparr>box_size := size_var self, error_correction := level\<rparr>"
    obtain r s3 where g: "generate E (strip (text_input_get self)) (lit ''black'') (lit ''white'') ?s2 = (r, s3)"
      by (cases "generate E (strip (text_input_get self)) (lit ''black'') (lit ''white'') ?s2")
    show ?thesis
    proof (cases r)
      case (Inl e)
      with generate_cases [OF g] have "s3 = ?s2" by auto
      with d Some g Inl assms show ?thesis
        by (simp add: on_generate_def Let_def on_generate_except_image)
    next
      case (Inr img)
      with g have "generate E (strip (text_input_get self)) (lit ''black'') (lit ''white'') ?s2 = (Inr img, s3)"
        by simp
      from on_generate_stored [OF d Some this] show ?thesis by simp
    qed
  qed
qed

lemma on_save_image:
  "last_generated_image (fst (on_save E answer self fs)) = last_generated_image self"
proof (cases "last_generated_image self = None \<or> answer = []")
  case True
  then show ?thesis by (auto simp: on_save_def Let_def)
next
  case False
  let ?s1 = "self\<lparr>events := events self @ [Asksaveasfilename]\<rparr>"
  obtain r s2 fs' where g: "save E answer ?s1 fs = (r, s2, fs')"
    by (cases "save E answer ?s1 fs")
  from save_object [of E answer ?s1 fs] g have "s2 = ?s1" by simp
  with False g show ?thesis by (cases r) (simp_all add: on_save_def Let_def)
qed

lemma on_generate_error_var: "error_var (on_generate E self) = error_var self"
proof (cases "strip (text_input_get self) = []")
  case True
  then show ?thesis by (simp add: on_generate_def)
next
  case d: False
  show ?thesis
  proof (cases "map_of ERROR_LEVELS (error_var self)")
    case None
    from on_generate_unknown [OF d None, of E] show ?thesis
      by (simp add: on_generate_except_def)
  next
    case (Some level)
    let ?s2 = "self\<lparr>box_size := size_var self, error_correction := level\<rparr>"
    obtain r s3 where g: "generate E (strip (text_input_get self)) (lit ''black'') (lit ''white'') ?s2 = (r, s3)"
      by (cases "generate E (strip (text_input_get self)) (lit ''black'') (lit ''white'') ?s2")
    from generate_cases [OF g] have e: "error_var s3 = error_var self" by auto
    show ?thesis
    proof (cases r)
      case (Inl x)
      with d Some g e show ?thesis
        by (simp add: on_generate_def Let_def on_generate_except_def)
    next
      case (Inr img)
      with g have g': "generate E (strip (text_input_get self)) (lit ''black'') (lit ''white'') ?s2 = (Inr img, s3)"
        by simp
      show ?thesis
        unfolding on_generate_generated [OF d Some g']
        using e by (simp add: on_generate_except_def split: sum.splits)
    qed
  qed
qed

lemma on_save_error_var: "error_var (fst (on_save E answer self fs)) = error_var self"
proof (cases "last_generated_image self = None \<or> answer = []")
  case True
  then show ?thesis by (auto simp: on_save_def Let_def)
next
  case False
  let ?s1 = "self\<lparr>events := events self @ [Asksaveasfilename]\<rparr>"
  obtain r s2 fs' where g: "save E answer ?s1 fs = (r, s2, fs')"
    by (cases "save E answer ?s1 fs")
  from save_object [of E answer ?s1 fs] g have "s2 = ?s1" by simp
  with False g show ?thesis by (cases r) (simp_all add: on_save_def Let_def)
qed

section \<open>The sample application, evaluated\<close>

lemmas sample_defs = sample_env_def sample_fits_def is_digit_def is_alphanum_def utf8_len_def
  sample_save_def sample_repr_def sample_escape_def hex_digit_def

lemma sample_long_unfit: "\<not> sample_fits ERROR_CORRECT_M (replicate 7090 97)"
  by (simp add: sample_fits_def is_digit_def is_alphanum_def utf8_len_def list_all_iff
      map_replicate_const sum_list_replicate)

lemma sample_app_fields:
  "box_size sample_app = 10" "border sample_app = 4"
  "error_correction sample_app = ERROR_CORRECT_M" "last_generated_image sample_app = None"
  "text_input sample_app = lit ''  https://example.org/a/rather/long/path?q=1 ''"
  "error_var sample_app = lit ''Quartile (25%)''" "size_var sample_app = 12"
  "photo sample_app = None" "status_var sample_app = lit ''Ready''" "events sample_app = []"
  by (simp_all add: sample_app_def app_init_def generator_init_def generator.defs app.defs
      ERROR_LEVELS_def lit_simps)

lemma sample_text: "strip (text_input_get sample_app) = lit ''https://example.org/a/rather/long/path?q=1''"
  by (simp add: text_input_get_def sample_app_fields strip_def lit_simps isspace_def)

lemma sample_level: "map_of ERROR_LEVELS (error_var sample_app) = Some ERROR_CORRECT_Q"
  by (simp add: sample_app_fields ERROR_LEVELS_def lit_simps)

lemma sample_generate:
  "generate sample_env (strip (text_input_get sample_app)) (lit ''black'') (lit ''white'')
     (sample_app\<lparr>box_size := size_var sample_app, error_correction := ERROR_CORRECT_Q\<rparr>) =
   (Inr sample_picture,
    sample_app\<lparr>box_size := 12, error_correction := ERROR_CORRECT_Q,
               last_generated_image := Some sample_picture\<rparr>)"
  unfolding sample_text
  by (simp add: generate_def sample_defs sample_picture_def sample_app_fields
        strip_def lit_simps isspace_def)

lemma sample_on_generate:
  "on_generate sample_env sample_app =
     sample_app\<lparr>box_size := 12, error_correction := ERROR_CORRECT_Q,
                last_generated_image := Some sample_picture,
                photo := Some (fst sample_picture, Some (250, 250)),
                qr_label_image := Some (fst sample_picture, Some (250, 250)),
                qr_label_text := [],
                status_var := lit ''Generated QR code for: https://example.org/a/rather/l...''\<rparr>"
proof -
  have d: "strip (text_input_get sample_app) \<noteq> []"
    unfolding sample_text by (simp add: lit_simps)
  show ?thesis
    unfolding on_generate_generated [OF d sample_level sample_generate]
    unfolding sample_text
    by (simp add: sample_defs lit_simps)
qed

lemma sample_env_generate:
  assumes "strip d \<noteq> []" and "sample_fits (error_correction self) d"
  shows "generate sample_env d f b self =
           (Inr (\<lparr>rq_version = None, rq_error_correction = error_correction self,
                  rq_box_size = box_size self, rq_border = border self,
                  rq_data = d, rq_fit = True, rq_fill_color = f, rq_back_color = b\<rparr>, None),
            self\<lparr>last_generated_image :=
              Some (\<lparr>rq_version = None, rq_error_correction = error_correction self,
                     rq_box_size = box_size self, rq_border = border self,
                     rq_data = d, rq_fit = True, rq_fill_color = f, rq_back_color = b\<rparr>, None)\<rparr>)"
  using assms by (simp add: generate_def sample_env_def)

lemma sample_short_on_generate:
  "events (on_generate sample_env
             (sample_app\<lparr>text_input := lit ''https://example.org/a/rather/l''\<rparr>)) = []"
proof -
  let ?a = "sample_app\<lparr>text_input := lit ''https://example.org/a/rather/l''\<rparr>"
  let ?d = "strip (text_input_get ?a)"
  have t: "?d = lit ''https://example.org/a/rather/l''"
    by (simp add: text_input_get_def strip_def lit_simps isspace_def)
  have d: "?d \<noteq> []" unfolding t by (simp add: lit_simps)
  then have dd: "strip ?d \<noteq> []" by (simp only: strip_idem not_False_eq_True)
  have n: "sample_fits
      (error_correction (?a\<lparr>box_size := size_var ?a, error_correction := ERROR_CORRECT_Q\<rparr>)) ?d"
    unfolding t by (simp add: sample_defs lit_simps)
  have l: "map_of ERROR_LEVELS (error_var ?a) = Some ERROR_CORRECT_Q"
    using sample_level by simp
  note g = sample_env_generate [OF dd n, where f = "lit ''black''" and b = "lit ''white''"]
  show ?thesis
    unfolding on_generate_generated [OF d l g]
    by (simp add: sample_defs sample_app_fields)
qed

lemma sample_long: "strip (replicate 7090 97) \<noteq> []"
  by (simp add: strip_Nil_iff isspace_def)

lemma hi_generator:
  "generator_init 10 4 (lit ''High (30%)'') =
      \<lparr>box_size = 10, border = 4, error_correction = ERROR_CORRECT_H,
       last_generated_image = None\<rparr>"
  by (simp add: generator_init_def ERROR_LEVELS_def lit_simps)

lemma hi_generate:
  "generate sample_env (lit ''hi'') (lit ''black'') (lit ''white'')
     (generator_init 10 4 (lit ''High (30%)'')) =
   (Inr hi_picture, (generator_init 10 4 (lit ''High (30%)''))\<lparr>last_generated_image := Some hi_picture\<rparr>)"
  unfolding hi_generator
  by (simp add: generate_def sample_defs hi_picture_def strip_def lit_simps isspace_def)

section \<open>Generating from accepted input\<close>

text \<open>
  Claim C1, as the code has it. For every string that is non-empty after trimming white
  space and every combination of parameters (any level, any box size, so also each of
  the four table entries and every box size from 5 to 20), \<open>generate\<close> succeeds exactly
  when the encoder returns an image for the request it is handed: it then returns that
  image and stores it. When the encoder raises instead, \<open>generate\<close> raises the same
  exception and leaves the object, and with it the stored image, as it was.
\<close>

theorem generate_nonblank:
  assumes "strip data \<noteq> []"
  shows "(qr_make_image E
            \<lparr>rq_version = None, rq_error_correction = error_correction self,
             rq_box_size = box_size self, rq_border = border self,
             rq_data = data, rq_fit = True,
             rq_fill_color = fill_color, rq_back_color = back_color\<rparr> = Inr img \<longrightarrow>
          generate E data fill_color back_color self =
            (Inr img, self\<lparr>last_generated_image := Some img\<rparr>)) \<and>
         (qr_make_image E
            \<lparr>rq_version = None, rq_error_correction = error_correction self,
             rq_box_size = box_size self, rq_border = border self,
             rq_data = data, rq_fit = True,
             rq_fill_color = fill_color, rq_back_color = back_color\<rparr> = Inl e \<longrightarrow>
          generate E data fill_color back_color self = (Inl e, self))"
  using assms by (simp add: generate_def)

text \<open>The text \<open>hi\<close> at level High with box size 10 is rendered and stored.\<close>

theorem generate_nonblank_witness:
  "strip (lit ''hi'') \<noteq> [] \<and>
   qr_make_image sample_env (fst hi_picture) = Inr hi_picture \<and>
   generate sample_env (lit ''hi'') (lit ''black'') (lit ''white'')
       (generator_init 10 4 (lit ''High (30%)'')) =
     (Inr hi_picture,
      (generator_init 10 4 (lit ''High (30%)''))\<lparr>last_generated_image := Some hi_picture\<rparr>)"
proof -
  have h: "strip (lit ''hi'') \<noteq> []"
    by (simp add: strip_def lit_simps isspace_def)
  have q: "qr_make_image sample_env (fst hi_picture) = Inr hi_picture"
    by (simp add: sample_defs hi_picture_def lit_simps)
  have f: "fst hi_picture =
      \<lparr>rq_version = None, rq_error_correction = ERROR_CORRECT_H, rq_box_size = 10,
       rq_border = 4, rq_data = lit ''hi'', rq_fit = True,
       rq_fill_color = lit ''black'', rq_back_color = lit ''white''\<rparr>"
    by (simp add: hi_picture_def)
  show ?thesis
    using h q generate_nonblank [OF h, where E = sample_env and fill_color = "lit ''black''"
        and back_color = "lit ''white''"
        and self = "generator_init 10 4 (lit ''High (30%)'') :: picture generator"
        and img = hi_picture]
    unfolding hi_generator f
    by simp
qed

text \<open>
  The claim as written promises success for every such string. A string of 7090 letters
  \<open>a\<close> is non-empty after trimming, and the parameters are the defaults (level Medium, box
  size 10), but no QR symbol holds it: the encoder raises \<open>DataOverflowError\<close>, and so does
  \<open>generate\<close>, which stores nothing.
\<close>

theorem generate_overflow_counterexample:
  "strip (replicate 7090 97) \<noteq> [] \<and>
   map_of ERROR_LEVELS (lit ''Medium (15%)'') = Some ERROR_CORRECT_M \<and>
   box_size (generator_init 10 4 (lit ''Medium (15%)'') :: picture generator) = 10 \<and>
   generate sample_env (replicate 7090 97) (lit ''black'') (lit ''white'')
       (generator_init 10 4 (lit ''Medium (15%)'')) =
     (Inl (LibraryError (lit ''DataOverflowError'') []),
      generator_init 10 4 (lit ''Medium (15%)''))"
proof -
  have g: "generator_init 10 4 (lit ''Medium (15%)'') =
      \<lparr>box_size = 10, border = 4, error_correction = ERROR_CORRECT_M,
       last_generated_image = (None :: picture option)\<rparr>"
    by (simp add: generator_init_def ERROR_LEVELS_def lit_simps)
  have l: "map_of ERROR_LEVELS (lit ''Medium (15%)'') = Some ERROR_CORRECT_M"
    by (simp add: ERROR_LEVELS_def lit_simps)
  show ?thesis
    unfolding g using sample_long sample_long_unfit l
    by (simp add: generate_def sample_env_def)
qed

section \<open>Rejected input\<close>

text \<open>
  Claim C2. For every input string that is empty or consists only of white space,
  \<open>generate\<close> raises \<open>ValueError\<close> (the invalid-input error), and the object is returned as
  it was: in particular the stored last-generated image, whatever it was before the call
  (\<open>None\<close> included), is unchanged. The empty string is the case of an empty set of
  characters.
\<close>

theorem generate_blank_fails:
  assumes "\<forall>c\<in>set data. isspace c"
  shows "generate E data fill_color back_color self =
           (Inl (ValueError (lit ''Please enter text or URL to generate QR code'')), self)"
proof -
  from assms have "strip data = []" by (simp only: strip_Nil_iff)
  then show ?thesis by (simp add: generate_def)
qed

text \<open>
  Three blanks are rejected by a generator that holds the image of an earlier call, and
  the generator still holds it.
\<close>

theorem generate_blank_fails_witness:
  "strip (lit ''   '') = [] \<and>
   last_generated_image
     (snd (generate sample_env (lit ''hi'') (lit ''black'') (lit ''white'')
             (generator_init 10 4 (lit ''High (30%)'')))) \<noteq> None \<and>
   generate sample_env (lit ''   '') (lit ''black'') (lit ''white'')
       (snd (generate sample_env (lit ''hi'') (lit ''black'') (lit ''white'')
               (generator_init 10 4 (lit ''High (30%)'')))) =
     (Inl (ValueError (lit ''Please enter text or URL to generate QR code'')),
      snd (generate sample_env (lit ''hi'') (lit ''black'') (lit ''white'')
             (generator_init 10 4 (lit ''High (30%)''))))"
proof -
  have b: "\<forall>c\<in>set (lit ''   ''). isspace c" by (simp add: lit_simps isspace_def)
  have "last_generated_image
     (snd (generate sample_env (lit ''hi'') (lit ''black'') (lit ''white'')
             (generator_init 10 4 (lit ''High (30%)'')))) \<noteq> None"
    by (simp add: hi_generate)
  moreover have "strip (lit ''   '') = []"
    by (simp add: strip_def lit_simps isspace_def)
  ultimately show ?thesis
    using generate_blank_fails [OF b, where E = sample_env and fill_color = "lit ''black''"
        and back_color = "lit ''white''"
        and self = "snd (generate sample_env (lit ''hi'') (lit ''black'') (lit ''white'')
             (generator_init 10 4 (lit ''High (30%)'')))"]
    by (simp only: simp_thms)
qed

section \<open>Saving before any image exists\<close>

text \<open>
  Claim C3. When the stored last-generated image is \<open>None\<close>, \<open>save\<close> raises \<open>ValueError\<close>
  without calling the image library, so the file system is as before; and the handler of
  the save button, \<open>_on_save\<close>, returns normally after one warning dialog: it opens no
  file dialog, calls no \<open>save\<close>, and leaves the file system and every field of the
  application as they were.
\<close>

theorem save_without_image:
  assumes "last_generated_image self = None"
  shows "save E filepath self fs =
           (Inl (ValueError (lit ''No QR code generated yet'')), self, fs) \<and>
         on_save E answer self fs =
           (self\<lparr>events := events self @
               [Showwarning (lit ''Warning'') (lit ''Generate a QR code first before saving'')]\<rparr>,
            fs)"
  using assms by (simp add: save_def on_save_def)

text \<open>The application as it starts has no image; saving to \<open>qr.png\<close> writes nothing.\<close>

theorem save_without_image_witness:
  "last_generated_image (app_init :: (picture, picture) app) = None \<and>
   save sample_env (lit ''qr.png'') (app_init :: (picture, picture) app) [] =
     (Inl (ValueError (lit ''No QR code generated yet'')), app_init, []) \<and>
   snd (on_save sample_env (lit ''qr.png'') (app_init :: (picture, picture) app) []) = [] \<and>
   events (fst (on_save sample_env (lit ''qr.png'') (app_init :: (picture, picture) app) [])) =
     [Showwarning (lit ''Warning'') (lit ''Generate a QR code first before saving'')]"
proof -
  have n: "last_generated_image (app_init :: (picture, picture) app) = None"
    by (simp add: app_init_def generator_init_def generator.defs app.defs)
  have e: "events (app_init :: (picture, picture) app) = []"
    by (simp add: app_init_def generator_init_def generator.defs app.defs)
  show ?thesis
    using n e save_without_image [OF n, where E = sample_env and filepath = "lit ''qr.png''"
        and answer = "lit ''qr.png''" and fs = "[]"]
    by simp
qed

section \<open>From label to level\<close>

text \<open>
  Claim C4. The constructor maps every label string through the table of four entries,
  and every label that is not in the table to Medium. The form holds its label in the
  variable of the dropdown: it starts at \<open>Medium (15%)\<close>, the dropdown is read-only and
  offers the four labels of the table, and neither handler writes the variable. For each
  of these labels the handler of the generate button, once the text is not blank, sets
  the level to the table's entry, which is the level \<open>generate\<close> then hands to the
  encoder.
\<close>

theorem label_lookup:
  fixes self :: "('img, 'photo, 'm) app_scheme"
  shows
  "error_correction (generator_init bs bd label :: 'img generator) =
     (if label = lit ''Low (7%)'' then ERROR_CORRECT_L
      else if label = lit ''Quartile (25%)'' then ERROR_CORRECT_Q
      else if label = lit ''High (30%)'' then ERROR_CORRECT_H
      else ERROR_CORRECT_M) \<and>
   error_var (app_init :: ('img, 'photo) app) = lit ''Medium (15%)'' \<and>
   error_var (on_generate E self) = error_var self \<and>
   error_var (fst (on_save E answer self fs)) = error_var self \<and>
   (strip (text_input_get self) \<noteq> [] \<longrightarrow>
      (error_var self = lit ''Low (7%)'' \<longrightarrow>
         error_correction (on_generate E self) = ERROR_CORRECT_L) \<and>
      (error_var self = lit ''Medium (15%)'' \<longrightarrow>
         error_correction (on_generate E self) = ERROR_CORRECT_M) \<and>
      (error_var self = lit ''Quartile (25%)'' \<longrightarrow>
         error_correction (on_generate E self) = ERROR_CORRECT_Q) \<and>
      (error_var self = lit ''High (30%)'' \<longrightarrow>
         error_correction (on_generate E self) = ERROR_CORRECT_H))"
proof (intro conjI impI)
  show "error_correction (generator_init bs bd label) =
     (if label = lit ''Low (7%)'' then ERROR_CORRECT_L
      else if label = lit ''Quartile (25%)'' then ERROR_CORRECT_Q
      else if label = lit ''High (30%)'' then ERROR_CORRECT_H
      else ERROR_CORRECT_M)"
    by (simp add: generator_init_def table lit_simps)
next
  show "error_var (app_init :: ('img, 'photo) app) = lit ''Medium (15%)''"
    by (simp add: app_init_def generator.defs app.defs generator_init_def)
next
  show "error_var (on_generate E self) = error_var self"
    by (rule on_generate_error_var)
next
  show "error_var (fst (on_save E answer self fs)) = error_var self"
    by (rule on_save_error_var)
next
  assume d: "strip (text_input_get self) \<noteq> []"
  { assume "error_var self = lit ''Low (7%)''"
    then have "map_of ERROR_LEVELS (error_var self) = Some ERROR_CORRECT_L" by (simp add: table)
    with d show "error_correction (on_generate E self) = ERROR_CORRECT_L"
      by (rule on_generate_level) }
  { assume "error_var self = lit ''Medium (15%)''"
    then have "map_of ERROR_LEVELS (error_var self) = Some ERROR_CORRECT_M"
      by (simp add: table lit_simps)
    with d show "error_correction (on_generate E self) = ERROR_CORRECT_M"
      by (rule on_generate_level) }
  { assume "error_var self = lit ''Quartile (25%)''"
    then have "map_of ERROR_LEVELS (error_var self) = Some ERROR_CORRECT_Q"
      by (simp add: table lit_simps)
    with d show "error_correction (on_generate E self) = ERROR_CORRECT_Q"
      by (rule on_generate_level) }
  { assume "error_var self = lit ''High (30%)''"
    then have "map_of ERROR_LEVELS (error_var self) = Some ERROR_CORRECT_H"
      by (simp add: table lit_simps)
    with d show "error_correction (on_generate E self) = ERROR_CORRECT_H"
      by (rule on_generate_level) }
qed

text \<open>
  The constructor maps \<open>Bogus\<close> to Medium. In the sample application the user has chosen
  \<open>Quartile (25%)\<close>: the handler sets the level to Quartile and leaves the choice as it
  is.
\<close>

theorem label_lookup_witness:
  "error_correction (generator_init 10 4 (lit ''Bogus'') :: picture generator) = ERROR_CORRECT_M \<and>
   strip (text_input_get sample_app) \<noteq> [] \<and>
   error_var sample_app = lit ''Quartile (25%)'' \<and>
   error_correction sample_app = ERROR_CORRECT_M \<and>
   error_correction (on_generate sample_env sample_app) = ERROR_CORRECT_Q \<and>
   error_var (on_generate sample_env sample_app) = lit ''Quartile (25%)''"
proof -
  have d: "strip (text_input_get sample_app) \<noteq> []"
    unfolding sample_text by (simp add: lit_simps)
  from label_lookup [where bs = 10 and bd = 4 and label = "lit ''Bogus''"
      and self = sample_app and E = sample_env]
  have 1: "error_correction (generator_init 10 4 (lit ''Bogus'') :: picture generator) = ERROR_CORRECT_M"
    and 2: "error_correction (on_generate sample_env sample_app) = ERROR_CORRECT_Q"
    and 3: "error_var (on_generate sample_env sample_app) = lit ''Quartile (25%)''"
    using d by (simp_all add: sample_app_fields lit_simps)
  from 1 2 3 d show ?thesis by (simp add: sample_app_fields)
qed

section \<open>The preview and the stored image\<close>

text \<open>
  Claim C6. Rescaling the generated bitmap for the 250 by 250 preview never replaces or
  alters the stored last-generated image. Let the handler's call of \<open>generate\<close> return
  \<open>img\<close>. Whatever the resampling \<open>r\<close> and the conversion \<open>p\<close> to a \<open>PhotoImage\<close> do (they
  are arbitrary, and may raise), the image stored after \<open>_on_generate\<close> is \<open>img\<close>, and a
  following \<open>save\<close> hands \<open>img\<close>, the image as the encoder produced it, to the library's
  writer: the file system after \<open>save\<close> is the one after writing \<open>img\<close>.
\<close>

theorem preview_keeps_stored_image:
  assumes "map_of ERROR_LEVELS (error_var self) = Some level"
    and "generate E (strip (text_input_get self)) (lit ''black'') (lit ''white'')
           (self\<lparr>box_size := size_var self, error_correction := level\<rparr>) = (Inr img, self3)"
  shows "last_generated_image (on_generate (E\<lparr>image_resize := r, photo_image := p\<rparr>) self) = Some img \<and>
         snd (snd (save E filepath (on_generate (E\<lparr>image_resize := r, photo_image := p\<rparr>) self) fs)) =
           snd (image_save E img filepath fs)"
proof -
  let ?E = "E\<lparr>image_resize := r, photo_image := p\<rparr>"
  have "strip (strip (text_input_get self)) \<noteq> []"
    using assms(2) by (auto simp: generate_def split: if_splits)
  then have d: "strip (text_input_get self) \<noteq> []" by auto
  have g: "generate ?E (strip (text_input_get self)) (lit ''black'') (lit ''white'')
           (self\<lparr>box_size := size_var self, error_correction := level\<rparr>) = (Inr img, self3)"
    using assms(2) by (simp only: generate_env)
  have s: "last_generated_image (on_generate ?E self) = Some img"
    using d assms(1) g by (rule on_generate_stored)
  then show ?thesis by (simp add: save_def split: prod.splits option.splits)
qed

text \<open>
  In the sample application the preview is the picture resampled to 250 by 250, while
  the stored picture and the file written by \<open>save\<close> are the picture as rendered.
\<close>

theorem preview_keeps_stored_image_witness:
  "map_of ERROR_LEVELS (error_var sample_app) = Some ERROR_CORRECT_Q \<and>
   fst (generate sample_env (strip (text_input_get sample_app)) (lit ''black'') (lit ''white'')
     (sample_app\<lparr>box_size := size_var sample_app, error_correction := ERROR_CORRECT_Q\<rparr>)) =
     Inr sample_picture \<and>
   photo (on_generate sample_env sample_app) = Some (fst sample_picture, Some (250, 250)) \<and>
   last_generated_image (on_generate sample_env sample_app) = Some sample_picture \<and>
   snd (snd (save sample_env (lit ''qr.png'') (on_generate sample_env sample_app) [])) =
     [(lit ''qr.png'', sample_picture)]"
proof -
  have e: "sample_env\<lparr>image_resize := image_resize sample_env,
                      photo_image := photo_image sample_env\<rparr> = sample_env"
    by simp
  have i: "snd (image_save sample_env sample_picture (lit ''qr.png'') []) =
             [(lit ''qr.png'', sample_picture)]"
    by (simp add: sample_defs lit_simps)
  show ?thesis
    using preview_keeps_stored_image [OF sample_level sample_generate,
        where r = "image_resize sample_env" and p = "photo_image sample_env"
          and filepath = "lit ''qr.png''" and fs = "[]"]
    unfolding e i
    by (simp add: sample_level sample_generate sample_on_generate)
qed

section \<open>Storing and saving\<close>

text \<open>
  Claim C7. A call of \<open>generate\<close> succeeds exactly when its text is not blank and the
  encoder returns an image for the request of this call; the image it returns and stores
  as the last-generated image is that newly produced image, whatever was stored before,
  and nothing else of the object changes. A \<open>save\<close> hands exactly the stored image to the
  library's writer and reports what the writer reports, so a \<open>save\<close> after a successful
  \<open>generate\<close> writes the image of that call; and \<open>save\<close>, whether it succeeds or fails,
  returns the object as it was, so the stored image is unchanged.
\<close>

theorem generate_stores_save_writes:
  "(strip d \<noteq> [] \<and>
    qr_make_image E
      \<lparr>rq_version = None, rq_error_correction = error_correction self,
       rq_box_size = box_size self, rq_border = border self,
       rq_data = d, rq_fit = True, rq_fill_color = f, rq_back_color = b\<rparr> = Inr img \<longrightarrow>
      generate E d f b self = (Inr img, self\<lparr>last_generated_image := Some img\<rparr>)) \<and>
   (generate E d f b self = (Inr img, self') \<longrightarrow>
      strip d \<noteq> [] \<and>
      qr_make_image E
        \<lparr>rq_version = None, rq_error_correction = error_correction self,
         rq_box_size = box_size self, rq_border = border self,
         rq_data = d, rq_fit = True, rq_fill_color = f, rq_back_color = b\<rparr> = Inr img \<and>
      self' = self\<lparr>last_generated_image := Some img\<rparr> \<and>
      last_generated_image self' = Some img \<and>
      save E p self' fs =
        (case image_save E img p fs of
           (None, fs') \<Rightarrow> (Inr (), self', fs')
         | (Some e, fs') \<Rightarrow> (Inl e, self', fs'))) \<and>
   (last_generated_image self = Some stored \<longrightarrow>
      save E p self fs =
        (case image_save E stored p fs of
           (None, fs') \<Rightarrow> (Inr (), self, fs')
         | (Some e, fs') \<Rightarrow> (Inl e, self, fs'))) \<and>
   fst (snd (save E p self fs)) = self"
proof (intro conjI impI)
  assume "strip d \<noteq> [] \<and>
    qr_make_image E
      \<lparr>rq_version = None, rq_error_correction = error_correction self,
       rq_box_size = box_size self, rq_border = border self,
       rq_data = d, rq_fit = True, rq_fill_color = f, rq_back_color = b\<rparr> = Inr img"
  then show "generate E d f b self = (Inr img, self\<lparr>last_generated_image := Some img\<rparr>)"
    by (simp add: generate_def)
next
  assume g: "generate E d f b self = (Inr img, self')"
  from generate_produced [OF g]
  show "strip d \<noteq> []"
    and "qr_make_image E
        \<lparr>rq_version = None, rq_error_correction = error_correction self,
         rq_box_size = box_size self, rq_border = border self,
         rq_data = d, rq_fit = True, rq_fill_color = f, rq_back_color = b\<rparr> = Inr img"
    by simp_all
  from generate_cases [OF g] show s: "self' = self\<lparr>last_generated_image := Some img\<rparr>"
    by auto
  then show l: "last_generated_image self' = Some img" by simp
  then show "save E p self' fs =
        (case image_save E img p fs of
           (None, fs') \<Rightarrow> (Inr (), self', fs')
         | (Some e, fs') \<Rightarrow> (Inl e, self', fs'))"
    by (simp add: save_def)
next
  assume "last_generated_image self = Some stored"
  then show "save E p self fs =
        (case image_save E stored p fs of
           (None, fs') \<Rightarrow> (Inr (), self, fs')
         | (Some e, fs') \<Rightarrow> (Inl e, self, fs'))"
    by (simp add: save_def)
next
  show "fst (snd (save E p self fs)) = self" by (rule save_object)
qed

text \<open>
  A generator that holds the image of \<open>hi\<close> generates for \<open>yo\<close>: the image of \<open>yo\<close>, a
  different one, is returned and stored in its place. It is written to \<open>qr.png\<close>, and it
  is still stored after a \<open>save\<close> to \<open>nodir/qr.png\<close>, which fails because there is no such
  directory and writes nothing.
\<close>

theorem generate_stores_save_writes_witness:
  "hi_picture \<noteq> yo_picture \<and>
   strip (lit ''yo'') \<noteq> [] \<and>
   qr_make_image sample_env (fst yo_picture) = Inr yo_picture \<and>
   generate sample_env (lit ''yo'') (lit ''black'') (lit ''white'')
       ((generator_init 10 4 (lit ''High (30%)''))\<lparr>last_generated_image := Some hi_picture\<rparr>) =
     (Inr yo_picture,
      (generator_init 10 4 (lit ''High (30%)''))\<lparr>last_generated_image := Some yo_picture\<rparr>) \<and>
   save sample_env (lit ''qr.png'')
       ((generator_init 10 4 (lit ''High (30%)''))\<lparr>last_generated_image := Some yo_picture\<rparr>) [] =
     (Inr (),
      (generator_init 10 4 (lit ''High (30%)''))\<lparr>last_generated_image := Some yo_picture\<rparr>,
      [(lit ''qr.png'', yo_picture)]) \<and>
   save sample_env (lit ''nodir/qr.png'')
       ((generator_init 10 4 (lit ''High (30%)''))\<lparr>last_generated_image := Some yo_picture\<rparr>) [] =
     (Inl (LibraryError (lit ''FileNotFoundError'')
             (lit ''[Errno 2] No such file or directory: '' @ [39] @ lit ''nodir/qr.png'' @ [39])),
      (generator_init 10 4 (lit ''High (30%)''))\<lparr>last_generated_image := Some yo_picture\<rparr>,
      [])"
proof -
  let ?g = "generator_init 10 4 (lit ''High (30%)'') :: picture generator"
  let ?g1 = "?g\<lparr>last_generated_image := Some hi_picture\<rparr>"
  let ?g2 = "?g\<lparr>last_generated_image := Some yo_picture\<rparr>"
  have n: "hi_picture \<noteq> yo_picture"
    by (simp add: hi_picture_def yo_picture_def lit_simps)
  have d: "strip (lit ''yo'') \<noteq> []"
    by (simp add: strip_def lit_simps isspace_def)
  have q: "qr_make_image sample_env (fst yo_picture) = Inr yo_picture"
    by (simp add: sample_defs yo_picture_def lit_simps)
  have r: "\<lparr>rq_version = None, rq_error_correction = error_correction ?g1,
       rq_box_size = box_size ?g1, rq_border = border ?g1,
       rq_data = lit ''yo'', rq_fit = True, rq_fill_color = lit ''black'',
       rq_back_color = lit ''white''\<rparr> = fst yo_picture"
    by (simp add: hi_generator yo_picture_def)
  have u: "?g1\<lparr>last_generated_image := Some yo_picture\<rparr> = ?g2" by simp
  have a: "image_save sample_env yo_picture (lit ''qr.png'') [] =
             (None, [(lit ''qr.png'', yo_picture)])"
    by (simp add: sample_defs lit_simps)
  have b: "image_save sample_env yo_picture (lit ''nodir/qr.png'') [] =
             (Some (LibraryError (lit ''FileNotFoundError'')
                (lit ''[Errno 2] No such file or directory: '' @ [39] @ lit ''nodir/qr.png'' @ [39])), [])"
    by (simp add: sample_defs lit_simps)
  from generate_stores_save_writes [where E = sample_env and d = "lit ''yo''"
      and f = "lit ''black''" and b = "lit ''white''" and self = ?g1 and img = yo_picture
      and self' = ?g2 and p = "lit ''qr.png''" and fs = "[]"]
  have 1: "generate sample_env (lit ''yo'') (lit ''black'') (lit ''white'') ?g1 = (Inr yo_picture, ?g2)"
    and 2: "save sample_env (lit ''qr.png'') ?g2 [] = (Inr (), ?g2, [(lit ''qr.png'', yo_picture)])"
    unfolding r u a using d q by simp_all
  from generate_stores_save_writes [where E = sample_env and d = "lit ''yo''"
      and f = "lit ''black''" and b = "lit ''white''" and self = ?g1 and img = yo_picture
      and self' = ?g2 and p = "lit ''nodir/qr.png''" and fs = "[]"]
  have 3: "save sample_env (lit ''nodir/qr.png'') ?g2 [] =
     (Inl (LibraryError (lit ''FileNotFoundError'')
             (lit ''[Errno 2] No such file or directory: '' @ [39] @ lit ''nodir/qr.png'' @ [39])),
      ?g2, [])"
    unfolding r u b using d q by simp
  from n d q 1 2 3 show ?thesis by (simp only: simp_thms)
qed

section \<open>The status line\<close>

text \<open>
  Claim C8. A run of \<open>_on_generate\<close> that shows no dialog is a successful one: every
  failing path shows exactly one warning or error. After it the status line is the fixed
  prefix, the first 30 characters of the input (the text read from the widget and
  stripped, which is the string handed to \<open>generate\<close>) and the fixed suffix \<open>...\<close>:
  nothing of the input beyond its first 30 characters, and the same suffix whether the
  input was longer than 30 characters or not. So two successful runs whose inputs agree
  on their first 30 characters leave the same status line: the message does not tell a
  truncated input from a short one. No assumption is made on the length of the input.
\<close>

theorem status_shows_first_30:
  assumes "events (on_generate E self) = events self"
  shows "status_var (on_generate E self) =
           lit ''Generated QR code for: '' @ take 30 (strip (text_input_get self)) @ lit ''...'' \<and>
         (events (on_generate E' self') = events self' \<and>
          take 30 (strip (text_input_get self')) = take 30 (strip (text_input_get self)) \<longrightarrow>
            status_var (on_generate E' self') = status_var (on_generate E self))"
  using on_generate_status [OF assms] on_generate_status [of E' self'] by simp

text \<open>
  The sample input has 42 characters; the status line shows the first 30, and is the
  same as for the input that consists of these 30 characters only.
\<close>

theorem status_shows_first_30_witness:
  "events (on_generate sample_env sample_app) = events sample_app \<and>
   length (strip (text_input_get sample_app)) = 42 \<and>
   status_var (on_generate sample_env sample_app) =
     lit ''Generated QR code for: https://example.org/a/rather/l...'' \<and>
   status_var (on_generate sample_env
                 (sample_app\<lparr>text_input := lit ''https://example.org/a/rather/l''\<rparr>)) =
     lit ''Generated QR code for: https://example.org/a/rather/l...''"
proof -
  let ?a = "sample_app\<lparr>text_input := lit ''https://example.org/a/rather/l''\<rparr>"
  have h: "events (on_generate sample_env sample_app) = events sample_app"
    by (simp add: sample_on_generate)
  have l: "length (strip (text_input_get sample_app)) = 42"
    unfolding sample_text by (simp add: lit_simps)
  have t: "take 30 (strip (text_input_get sample_app)) = lit ''https://example.org/a/rather/l''"
    unfolding sample_text by (simp add: lit_simps)
  have h': "events (on_generate sample_env ?a) = events ?a"
    by (simp add: sample_short_on_generate sample_app_fields)
  have t': "take 30 (strip (text_input_get ?a)) = lit ''https://example.org/a/rather/l''"
    by (simp add: text_input_get_def strip_def lit_simps isspace_def)
  show ?thesis
    using h l h' status_shows_first_30 [OF h, where E' = sample_env and self' = ?a]
    unfolding t t' by (simp add: lit_simps)
qed

section \<open>The stored image over a sequence of calls\<close>

text \<open>
  Claim C9. The stored last-generated image is \<open>None\<close> in a new generator. After any
  sequence of calls of \<open>generate\<close> and \<open>save\<close>, succeeding or failing, on a new generator,
  the stored image is the image returned by the most recent call of \<open>generate\<close> that
  returned one, and \<open>None\<close> if there was none; and from an object that holds an image, no
  sequence of calls leads to an object that holds none. The handlers of the two buttons,
  which reach the stored image through \<open>generate\<close> and \<open>save\<close> only, do not reset it
  either.
\<close>

theorem stored_image_invariant:
  "last_generated_image (generator_init bs bd ec) = None \<and>
   (run E cs (generator_init bs bd ec, fs, None) = (self', fs', recent') \<longrightarrow>
      last_generated_image self' = recent') \<and>
   (last_generated_image self \<noteq> None \<longrightarrow>
      last_generated_image (fst (run E cs (self, fs, recent))) \<noteq> None) \<and>
   (last_generated_image app \<noteq> None \<longrightarrow>
      last_generated_image (on_generate E app) \<noteq> None \<and>
      last_generated_image (fst (on_save E answer app fs)) \<noteq> None)"
proof (intro conjI impI)
  show n: "last_generated_image (generator_init bs bd ec) = None"
    by (simp add: generator_init_def)
  assume "run E cs (generator_init bs bd ec, fs, None) = (self', fs', recent')"
  with n show "last_generated_image self' = recent'" by (rule run_inv)
next
  assume "last_generated_image self \<noteq> None"
  then show "last_generated_image (fst (run E cs (self, fs, recent))) \<noteq> None"
    using run_keeps [of "(self, fs, recent)" E cs] by simp
next
  assume "last_generated_image app \<noteq> None"
  then show "last_generated_image (on_generate E app) \<noteq> None"
    by (rule on_generate_keeps)
next
  assume "last_generated_image app \<noteq> None"
  then show "last_generated_image (fst (on_save E answer app fs)) \<noteq> None"
    by (simp only: on_save_image not_False_eq_True)
qed

text \<open>
  A \<open>save\<close> before any image, a successful \<open>generate\<close>, a rejected one, a successful \<open>save\<close>
  and one that fails for want of the directory: the generator holds the one image that
  was returned.
\<close>

theorem stored_image_invariant_witness:
  "run sample_env
     [Save (lit ''early.png''),
      Generate (lit ''hi'') (lit ''black'') (lit ''white''),
      Generate (lit ''   '') (lit ''black'') (lit ''white''),
      Save (lit ''qr.png''),
      Save (lit ''nodir/qr.png'')]
     (generator_init 10 4 (lit ''High (30%)''), [], None) =
   ((generator_init 10 4 (lit ''High (30%)''))\<lparr>last_generated_image := Some hi_picture\<rparr>,
    [(lit ''qr.png'', hi_picture)], Some hi_picture) \<and>
   last_generated_image
     ((generator_init 10 4 (lit ''High (30%)''))\<lparr>last_generated_image := Some hi_picture\<rparr>) =
     Some hi_picture"
proof -
  let ?g = "generator_init 10 4 (lit ''High (30%)'') :: picture generator"
  let ?g' = "?g\<lparr>last_generated_image := Some hi_picture\<rparr>"
  let ?cs = "[Save (lit ''early.png''),
      Generate (lit ''hi'') (lit ''black'') (lit ''white''),
      Generate (lit ''   '') (lit ''black'') (lit ''white''),
      Save (lit ''qr.png''),
      Save (lit ''nodir/qr.png'')]"
  have b: "strip (lit ''   '') = []" by (simp add: strip_def lit_simps isspace_def)
  have n: "last_generated_image ?g = None" by (simp add: generator_init_def)
  have 1: "step sample_env (Save (lit ''early.png'')) (?g, [], None) = (?g, [], None)"
    by (simp add: save_def n)
  have 2: "step sample_env (Generate (lit ''hi'') (lit ''black'') (lit ''white'')) (?g, [], None) =
             (?g', [], Some hi_picture)"
    by (simp add: hi_generate)
  have 3: "step sample_env (Generate (lit ''   '') (lit ''black'') (lit ''white''))
             (?g', [], Some hi_picture) = (?g', [], Some hi_picture)"
    by (simp add: generate_def b)
  have 4: "step sample_env (Save (lit ''qr.png'')) (?g', [], Some hi_picture) =
             (?g', [(lit ''qr.png'', hi_picture)], Some hi_picture)"
    by (simp add: save_def sample_defs lit_simps)
  have 5: "step sample_env (Save (lit ''nodir/qr.png'')) (?g', [(lit ''qr.png'', hi_picture)], Some hi_picture) =
             (?g', [(lit ''qr.png'', hi_picture)], Some hi_picture)"
    by (simp add: save_def sample_defs lit_simps)
  have r: "run sample_env ?cs (?g, [], None) = (?g', [(lit ''qr.png'', hi_picture)], Some hi_picture)"
    by (simp only: run.simps 1 2 3 4 5)
  from stored_image_invariant [where E = sample_env and cs = ?cs and bs = 10 and bd = 4
      and ec = "lit ''High (30%)''" and fs = "[]" and self' = ?g'
      and fs' = "[(lit ''qr.png'', hi_picture)]" and recent' = "Some hi_picture"
      and self = ?g' and recent = "Some hi_picture"] r
  show ?thesis by simp
qed

section \<open>The returned image and the stored image\<close>

text \<open>
  Claim C10. Whenever \<open>generate\<close> returns an image, that image is the one stored right
  after the call. So after a run of \<open>_on_generate\<close> that shows no dialog, the preview on
  display was built, by resampling and conversion to a \<open>PhotoImage\<close>, from the very image
  that is stored and that \<open>save\<close> will read.
\<close>

theorem returned_image_is_stored:
  fixes self :: "('img, 'm) generator_scheme" and app :: "('img, 'photo, 'n) app_scheme"
  shows
  "(fst (generate E d f b self) = Inr img \<longrightarrow>
      last_generated_image (snd (generate E d f b self)) = Some img) \<and>
   (events (on_generate E app) = events app \<longrightarrow>
      (\<exists>img' rs ph.
         last_generated_image (on_generate E app) = Some img' \<and>
         image_resize E img' (250, 250) = Inr rs \<and> photo_image E rs = Inr ph \<and>
         photo (on_generate E app) = Some ph \<and> qr_label_image (on_generate E app) = Some ph))"
proof (intro conjI impI)
  assume a: "fst (generate E d f b self) = Inr img"
  obtain r s where g: "generate E d f b self = (r, s)" by (cases "generate E d f b self")
  from generate_cases [OF g] a g
  show "last_generated_image (snd (generate E d f b self)) = Some img" by auto
next
  assume q: "events (on_generate E app) = events app"
  from on_generate_quiet [OF q] obtain level img' self3 rs ph where
    d: "strip (text_input_get app) \<noteq> []" and
    l: "map_of ERROR_LEVELS (error_var app) = Some level" and
    g: "generate E (strip (text_input_get app)) (lit ''black'') (lit ''white'')
             (app\<lparr>box_size := size_var app, error_correction := level\<rparr>) = (Inr img', self3)" and
    rs: "image_resize E img' (250, 250) = Inr rs" and ph: "photo_image E rs = Inr ph"
    by blast
  have s: "last_generated_image (on_generate E app) = Some img'"
    using d l g by (rule on_generate_stored)
  have "photo (on_generate E app) = Some ph \<and> qr_label_image (on_generate E app) = Some ph"
    unfolding on_generate_generated [OF d l g] by (simp add: rs ph)
  with s rs ph
  show "\<exists>img' rs ph.
         last_generated_image (on_generate E app) = Some img' \<and>
         image_resize E img' (250, 250) = Inr rs \<and> photo_image E rs = Inr ph \<and>
         photo (on_generate E app) = Some ph \<and> qr_label_image (on_generate E app) = Some ph"
    by blast
qed

text \<open>
  For the text \<open>hi\<close> the returned picture is the stored one; in the sample application
  the preview is the stored picture resampled to 250 by 250.
\<close>

theorem returned_image_is_stored_witness:
  "fst (generate sample_env (lit ''hi'') (lit ''black'') (lit ''white'')
         (generator_init 10 4 (lit ''High (30%)''))) = Inr hi_picture \<and>
   last_generated_image
     (snd (generate sample_env (lit ''hi'') (lit ''black'') (lit ''white'')
         (generator_init 10 4 (lit ''High (30%)'')))) = Some hi_picture \<and>
   events (on_generate sample_env sample_app) = events sample_app \<and>
   last_generated_image (on_generate sample_env sample_app) = Some sample_picture \<and>
   image_resize sample_env sample_picture (250, 250) = Inr (fst sample_picture, Some (250, 250)) \<and>
   photo (on_generate sample_env sample_app) = Some (fst sample_picture, Some (250, 250))"
proof -
  have a: "fst (generate sample_env (lit ''hi'') (lit ''black'') (lit ''white'')
         (generator_init 10 4 (lit ''High (30%)''))) = Inr hi_picture"
    by (simp add: hi_generate)
  have q: "events (on_generate sample_env sample_app) = events sample_app"
    by (simp add: sample_on_generate)
  have r: "image_resize sample_env sample_picture (250, 250) =
      Inr (fst sample_picture, Some (250, 250))"
    by (simp add: sample_defs)
  from returned_image_is_stored [where E = sample_env and d = "lit ''hi''" and f = "lit ''black''"
      and b = "lit ''white''" and self = "generator_init 10 4 (lit ''High (30%)'')"
      and img = hi_picture and app = sample_app] a q
  have "last_generated_image
     (snd (generate sample_env (lit ''hi'') (lit ''black'') (lit ''white'')
         (generator_init 10 4 (lit ''High (30%)'')))) = Some hi_picture"
    by simp
  with a q r show ?thesis by (simp add: sample_on_generate)
qed

end
